theory Spec2Isabelle
  imports Main
begin

section \<open>Tables (the part of pandas that \<open>quantopian_get_pricing.py\<close> uses)\<close>

text \<open>
  \<open>get_pricing\<close> never computes with the content of a cell: it copies, relabels and moves
  whole columns. A cell is therefore an opaque payload: \<open>Num\<close> carries a numeric value
  (a price or a volume; for a float its bit pattern, so that two cells are equal exactly
  when they are the same value), \<open>Stamp\<close> a timestamp, \<open>Str\<close> a string.

  A table has a row index of one or more levels, each with an optional name and one label
  per row, and a list of labelled columns in their order. Column labels are plain strings
  (a single-level column index) and may repeat, as in pandas: \<open>rename\<close> can make two
  columns share a label.
\<close>

datatype cell = Num int | Stamp nat | Str string

type_synonym column = "cell list"

record frame =
  levels :: "(string option \<times> cell list) list"
  columns :: "(string \<times> column) list"

datatype error = ValueError string | KeyError string

text \<open>The value of \<open>frame[key]\<close>: a Series for a label that occurs once, a sub-table
  for a label that occurs several times.\<close>

datatype selection = Series column | SubFrame "column list"

definition nrows :: "frame \<Rightarrow> nat" where
  "nrows f = (case levels f of [] \<Rightarrow> 0 | l # _ \<Rightarrow> length (snd l))"

definition labels :: "frame \<Rightarrow> string list" where
  "labels f = map fst (columns f)"

text \<open>\<open>DataFrame.empty\<close>: some axis has length 0 (no row, or no column).\<close>

definition frame_empty :: "frame \<Rightarrow> bool" where
  "frame_empty f = (nrows f = 0 \<or> columns f = [])"

text \<open>\<open>DataFrame.rename(columns=mapper)\<close> with a dict: a label that is a key of the dict
  is replaced, every other label is kept. The result is a new table.\<close>

definition rename_label :: "(string \<times> string) list \<Rightarrow> string \<Rightarrow> string" where
  "rename_label mapper l = (case map_of mapper l of None \<Rightarrow> l | Some l' \<Rightarrow> l')"

definition rename_columns :: "(string \<times> string) list \<Rightarrow> frame \<Rightarrow> frame" where
  "rename_columns mapper f =
     f\<lparr>columns := map (\<lambda>c. (rename_label mapper (fst c), snd c)) (columns f)\<rparr>"

text \<open>\<open>frame[key]\<close>: KeyError when no column has the label.\<close>

definition getitem :: "frame \<Rightarrow> string \<Rightarrow> error + selection" where
  "getitem f key =
     (case filter (\<lambda>c. fst c = key) (columns f) of
        [] \<Rightarrow> Inl (KeyError key)
      | [c] \<Rightarrow> Inr (Series (snd c))
      | cs \<Rightarrow> Inr (SubFrame (map snd cs)))"

text \<open>Writing one column under a label: every column that has the label already is
  overwritten where it stands; when there is none, the column is added at the end.\<close>

definition assign :: "string \<Rightarrow> column \<Rightarrow> (string \<times> column) list \<Rightarrow> (string \<times> column) list" where
  "assign key v cs =
     (if key \<in> set (map fst cs)
      then map (\<lambda>c. if fst c = key then (key, v) else c) cs
      else cs @ [(key, v)])"

text \<open>Writing the columns of a sub-table over the columns that have the label, one for
  one in their order.\<close>

fun assign_each :: "string \<Rightarrow> column list \<Rightarrow> (string \<times> column) list \<Rightarrow> (string \<times> column) list" where
  "assign_each key vs [] = []"
| "assign_each key [] (c # cs) = c # cs"
| "assign_each key (v # vs) (c # cs) =
     (if fst c = key then (key, v) # assign_each key vs cs
      else c # assign_each key (v # vs) cs)"

text \<open>\<open>frame[key] = value\<close> (pandas 2): a Series is written as above (the Series comes
  from the same table, so its rows are aligned). A sub-table of several columns can only
  be written over as many columns of that label; otherwise pandas raises ValueError.\<close>

definition setitem :: "frame \<Rightarrow> string \<Rightarrow> selection \<Rightarrow> error + frame" where
  "setitem f key value =
     (case value of
        Series v \<Rightarrow> Inr (f\<lparr>columns := assign key v (columns f)\<rparr>)
      | SubFrame vs \<Rightarrow>
          if key \<in> set (labels f) then
            if length (filter (\<lambda>c. fst c = key) (columns f)) = length vs
            then Inr (f\<lparr>columns := assign_each key vs (columns f)\<rparr>)
            else Inl (ValueError ''Columns must be same length as key'')
          else Inl (ValueError
                 (''Cannot set a DataFrame with multiple columns to the single column '' @ key)))"

text \<open>\<open>frame[key] = scalar\<close>: the scalar is repeated down the rows.\<close>

definition setitem_scalar :: "frame \<Rightarrow> string \<Rightarrow> cell \<Rightarrow> frame" where
  "setitem_scalar f key v = f\<lparr>columns := assign key (replicate (nrows f) v) (columns f)\<rparr>"

text \<open>\<open>frame.index.name = name\<close>: names the only level of a single-level index; the
  level names of a multi-level index are kept in \<open>names\<close> and stay as they are.\<close>

definition set_index_name :: "string \<Rightarrow> frame \<Rightarrow> frame" where
  "set_index_name name f =
     (case levels f of [l] \<Rightarrow> f\<lparr>levels := [(Some name, snd l)]\<rparr> | _ \<Rightarrow> f)"

text \<open>Decimal digits of a natural number, for the default labels \<open>level_i\<close>.\<close>

function decimal :: "nat \<Rightarrow> string" where
  "decimal n =
     (if n < 10 then [char_of (48 + n)]
      else decimal (n div 10) @ [char_of (48 + n mod 10)])"
  by pat_completeness auto
termination
  by (relation "measure id") auto

text \<open>The labels under which \<open>reset_index\<close> turns the index levels into columns: the
  level's name; for an unnamed level \<open>index\<close> (or \<open>level_0\<close> when a column \<open>index\<close>
  exists) in a single-level index and \<open>level_i\<close> in a multi-level one.\<close>

definition level_labels :: "frame \<Rightarrow> string list" where
  "level_labels f =
     (case levels f of
        [l] \<Rightarrow>
          (case fst l of
             Some n \<Rightarrow> [n]
           | None \<Rightarrow> [if ''index'' \<notin> set (labels f) then ''index'' else ''level_0''])
      | ls \<Rightarrow>
          map (\<lambda>(i, l). case fst l of Some n \<Rightarrow> n | None \<Rightarrow> ''level_'' @ decimal i)
              (zip [0..<length ls] ls))"

text \<open>\<open>DataFrame.insert(0, label, values)\<close> without \<open>allow_duplicates\<close>.\<close>

definition insert_front :: "string \<Rightarrow> column \<Rightarrow> (string \<times> column) list \<Rightarrow> error + (string \<times> column) list" where
  "insert_front l v cs =
     (if l \<in> set (map fst cs)
      then Inl (ValueError (''cannot insert '' @ l @ '', already exists''))
      else Inr ((l, v) # cs))"

text \<open>The levels are inserted at the front from the last to the first, so that they end
  up in their order; the first label that exists already stops the insertion.\<close>

fun insert_levels :: "(string \<times> column) list \<Rightarrow> (string \<times> column) list \<Rightarrow> error + (string \<times> column) list" where
  "insert_levels [] cs = Inr cs"
| "insert_levels (l # ls) cs =
     (case insert_front (fst l) (snd l) cs of
        Inl e \<Rightarrow> Inl e
      | Inr cs' \<Rightarrow> insert_levels ls cs')"

text \<open>\<open>frame.reset_index()\<close>: a new table whose index levels have become its first
  columns and whose index is the default one, \<open>0, 1, ..., n - 1\<close>, without a name.\<close>

definition reset_index :: "frame \<Rightarrow> error + frame" where
  "reset_index f =
     (case insert_levels (rev (zip (level_labels f) (map snd (levels f)))) (columns f) of
        Inl e \<Rightarrow> Inl e
      | Inr cs \<Rightarrow>
          Inr \<lparr>levels = [(None, map (\<lambda>i. Num (int i)) [0..<nrows f])], columns = cs\<rparr>)"

text \<open>\<open>frame.set_index(key, append=...)\<close> for one column label (\<open>drop=True\<close>): the
  column becomes an index level named after it, the only one or, with \<open>append\<close>, the last
  one, and leaves the columns. A missing label is a KeyError; a label that several columns
  share selects a two-dimensional value, which pandas refuses as index data.\<close>

definition set_index :: "string \<Rightarrow> bool \<Rightarrow> frame \<Rightarrow> error + frame" where
  "set_index key appending f =
     (case filter (\<lambda>c. fst c = key) (columns f) of
        [] \<Rightarrow> Inl (KeyError (''None of ['' @ [CHR 0x27] @ key @ [CHR 0x27] @ ''] are in the columns''))
      | [c] \<Rightarrow>
          Inr \<lparr>levels = (if appending then levels f else []) @ [(Some key, snd c)],
               columns = filter (\<lambda>c. fst c \<noteq> key) (columns f)\<rparr>
      | _ \<Rightarrow>
          Inl (ValueError (if appending then ''Data must be 1-dimensional''
                           else ''Index data must be 1-dimensional'')))"

section \<open>The provider and the object store\<close>

text \<open>
  What \<open>yf.download\<close> hands back is a table with a single-level row index (the dates),
  pairwise distinct column labels and as many cells in every column as there are rows.
  Nothing else is known of it: which columns it has, and in which order, is the
  provider's business. (A provider that labels its columns with pairs, a multi-level
  column index, is outside this model.)
\<close>

typedef response =
  "{f :: frame. length (levels f) = 1 \<and> distinct (map fst (columns f)) \<and>
      (\<forall>c \<in> set (columns f). length (snd c) = nrows f)}"
  by (rule exI [of _ "\<lparr>levels = [(None, [])], columns = []\<rparr>"]) (simp add: nrows_def)

text \<open>A call of the provider either raises an exception (an \<open>Exception\<close>, which is what
  line 48 catches; it is modelled by its message, what \<open>str(e)\<close> gives) or returns a
  table. An interrupt of the process during the call is not modelled. The provider is a
  parameter of the model: ticker, start, end and interval go in.\<close>

datatype download_result = Raised string | Returned response

type_synonym provider = "string \<Rightarrow> string \<Rightarrow> string \<Rightarrow> string \<Rightarrow> download_result"


text \<open>Tables are objects: a variable holds a reference, \<open>frame[key] = v\<close>,
  \<open>frame.index.name = n\<close> and \<open>inplace=True\<close> change the object referred to, every other
  operation used here builds a new object. The store is the list of the objects made so
  far, a reference is a position in it.\<close>

type_synonym heap = "frame list"

definition alloc :: "frame \<Rightarrow> heap \<Rightarrow> nat \<times> heap" where
  "alloc f h = (length h, h @ [f])"

section \<open>\<open>get_pricing\<close>\<close>

definition quantopian_names :: "(string \<times> string) list" where
  "quantopian_names =
     [(''Open'', ''open_price''), (''High'', ''high''), (''Low'', ''low''),
      (''Close'', ''close_price''), (''Volume'', ''volume'')]"

text \<open>Lines 37 to 41: the interval handed to the provider.\<close>

definition provider_interval :: "string \<Rightarrow> string" where
  "provider_interval frequency = (if frequency = ''1m'' then ''1m'' else frequency)"

text \<open>Lines 54 to 76, on the table that \<open>data\<close> refers to: the result is the reference
  \<open>formatted_data\<close>, or the exception that a pandas operation raised on the way.\<close>

definition shape :: "string \<Rightarrow> nat \<Rightarrow> heap \<Rightarrow> (error + nat) \<times> heap" where
  "shape ticker data0 h =
     (let (data, h1) = alloc (rename_columns quantopian_names (h ! data0)) h in
      case getitem (h1 ! data) ''close_price'' of
        Inl e \<Rightarrow> (Inl e, h1)
      | Inr close \<Rightarrow>
      case setitem (h1 ! data) ''price'' close of
        Inl e \<Rightarrow> (Inl e, h1)
      | Inr priced \<Rightarrow>
      let h2 = h1[data := priced];
          h3 = h2[data := set_index_name ''timestamp'' (h2 ! data)] in
      case reset_index (h3 ! data) of
        Inl e \<Rightarrow> (Inl e, h3)
      | Inr flat \<Rightarrow>
      let (tmp, h4) = alloc flat h3 in
      case set_index ''timestamp'' False (h4 ! tmp) of
        Inl e \<Rightarrow> (Inl e, h4)
      | Inr stamped \<Rightarrow>
      let (formatted_data, h5) = alloc stamped h4;
          h6 = h5[formatted_data := setitem_scalar (h5 ! formatted_data) ''symbol'' (Str ticker)] in
      case set_index ''symbol'' True (h6 ! formatted_data) of
        Inl e \<Rightarrow> (Inl e, h6)
      | Inr indexed \<Rightarrow> (Inr formatted_data, h6[formatted_data := indexed]))"

text \<open>The whole function. The table the provider returns is a new object of the store.\<close>

definition get_pricing ::
  "provider \<Rightarrow> string \<Rightarrow> string \<Rightarrow> string \<Rightarrow> string \<Rightarrow> heap \<Rightarrow> (error + nat) \<times> heap" where
  "get_pricing download ticker start_date end_date frequency h =
     (let interval = provider_interval frequency in
      case download ticker start_date end_date interval of
        Raised e \<Rightarrow>
          (Inl (ValueError (''Error fetching data for '' @ ticker @ '': '' @ e)), h)
      | Returned r \<Rightarrow>
          let (data, h0) = alloc (Rep_response r) h in
          if frame_empty (h0 ! data)
          then (Inl (ValueError (''No data found for '' @ ticker @ '' from '' @ start_date
                                 @ '' to '' @ end_date @ ''.'')), h0)
          else shape ticker data h0)"

section \<open>What the caller sees, and the table that the shaping builds\<close>

text \<open>The result of a call together with the store: the exception, or the table that the
  returned reference stands for.\<close>

definition outcome :: "(error + nat) \<times> heap \<Rightarrow> error + frame" where
  "outcome res = (case fst res of Inl e \<Rightarrow> Inl e | Inr a \<Rightarrow> Inr (snd res ! a))"

text \<open>The columns after the renaming of line 55.\<close>

definition renamed :: "frame \<Rightarrow> (string \<times> column) list" where
  "renamed f = columns (rename_columns quantopian_names f)"

text \<open>The operations of lines 54 to 76 in their order, on the table itself and without
  the store; \<open>shape\<close> is shown below to build exactly this table.\<close>

definition formatted :: "string \<Rightarrow> frame \<Rightarrow> error + frame" where
  "formatted ticker f =
     (let d = rename_columns quantopian_names f in
      case getitem d ''close_price'' of
        Inl e \<Rightarrow> Inl e
      | Inr close \<Rightarrow>
      case setitem d ''price'' close of
        Inl e \<Rightarrow> Inl e
      | Inr priced \<Rightarrow>
      case reset_index (set_index_name ''timestamp'' priced) of
        Inl e \<Rightarrow> Inl e
      | Inr flat \<Rightarrow>
      case set_index ''timestamp'' False flat of
        Inl e \<Rightarrow> Inl e
      | Inr stamped \<Rightarrow>
      set_index ''symbol'' True (setitem_scalar stamped ''symbol'' (Str ticker)))"

section \<open>Example tables\<close>

text \<open>A provider that answers every request with the same table; a two-day table with the
  columns that \<open>yf.download\<close> returned by default in 2024, prices in cents; the table that
  \<open>get_pricing\<close> makes of it.\<close>

definition always :: "response \<Rightarrow> provider" where
  "always r ticker start_date end_date interval = Returned r"

definition yahoo_frame :: frame where
  "yahoo_frame =
     \<lparr>levels = [(Some ''Date'', [Stamp 20230103, Stamp 20230104])],
      columns = [(''Open'', [Num 13028, Num 12689]), (''High'', [Num 13090, Num 12867]),
                 (''Low'', [Num 12417, Num 12508]), (''Close'', [Num 12507, Num 12636]),
                 (''Adj Close'', [Num 12367, Num 12495]),
                 (''Volume'', [Num 112117500, Num 89113600])]\<rparr>"

definition yahoo :: response where
  "yahoo = Abs_response yahoo_frame"

definition aapl_table :: frame where
  "aapl_table =
     \<lparr>levels = [(Some ''timestamp'', [Stamp 20230103, Stamp 20230104]),
                (Some ''symbol'', [Str ''AAPL'', Str ''AAPL''])],
      columns = [(''open_price'', [Num 13028, Num 12689]), (''high'', [Num 13090, Num 12867]),
                 (''low'', [Num 12417, Num 12508]), (''close_price'', [Num 12507, Num 12636]),
                 (''Adj Close'', [Num 12367, Num 12495]),
                 (''volume'', [Num 112117500, Num 89113600]),
                 (''price'', [Num 12507, Num 12636])]\<rparr>"

section \<open>The price watcher (\<open>multivit_pricing.py\<close>)\<close>

text \<open>
  The browser, the network and the page are outside the program. They are a parameter of
  the model, \<open>world\<close>: whether the driver can be launched with a given configuration,
  whether the page loads, which element a selector finds and which text it shows. Each of
  these calls either raises a fault (the Selenium exception, by its name and message) or
  answers.
\<close>

datatype fault = Fault string

record options =
  headless :: bool
  binary_location :: string

record world =
  launch :: "string \<Rightarrow> options \<Rightarrow> fault option"
  navigate :: "string \<Rightarrow> fault option"
  find_element :: "string \<Rightarrow> fault + nat"
  element_text :: "nat \<Rightarrow> fault + string"

text \<open>What the program changes: the browser sessions that are open (a driver is the
  number of its session), the number of sessions started so far, the seconds spent in
  \<open>time.sleep\<close>, and the lines printed.\<close>

record machine =
  sessions :: "nat list"
  started :: nat
  slept :: nat
  stdout :: "string list"

record reply =
  statusCode :: int
  body :: string

text \<open>\<open>setup_driver\<close>: the environment is the set of the names of the variables that
  are set. \<open>webdriver.Firefox(...)\<close> raises, and then no session exists, or opens a new
  session.\<close>

definition setup_driver :: "string set \<Rightarrow> world \<Rightarrow> machine \<Rightarrow> (fault + nat) \<times> machine" where
  "setup_driver environ w m =
     (let opts = \<lparr>headless = True, binary_location = ''''\<rparr>;
          (opts', driver_service) =
            (if ''LAMBDA_TASK_ROOT'' \<in> environ
             then (opts\<lparr>binary_location := ''/opt/firefox/firefox''\<rparr>, ''/opt/geckodriver'')
             else (opts\<lparr>binary_location :=
                      ''/Applications/Firefox Developer Edition.app/Contents/MacOS/firefox''\<rparr>,
                   ''/usr/local/bin/geckodriver''))
      in case launch w driver_service opts' of
           Some flt \<Rightarrow> (Inl flt, m)
         | None \<Rightarrow>
             (Inr (started m),
              m\<lparr>sessions := started m # sessions m, started := Suc (started m)\<rparr>))"

text \<open>\<open>driver.quit()\<close> ends the session of the driver; it is taken not to raise.\<close>

definition quit :: "nat \<Rightarrow> machine \<Rightarrow> machine" where
  "quit driver m = m\<lparr>sessions := removeAll driver (sessions m)\<rparr>"

text \<open>The body of the \<open>try\<close> block, lines 47 to 62: the first call that raises ends
  it.\<close>

definition fetch :: "world \<Rightarrow> machine \<Rightarrow> (fault + string) \<times> machine" where
  "fetch w m =
     (case navigate w ''https://www.bulk.com/uk/products/sports-multi-am-pm/bpps-smul'' of
        Some flt \<Rightarrow> (Inl flt, m)
      | None \<Rightarrow>
      let m1 = m\<lparr>slept := slept m + 10\<rparr> in
      case find_element w
             ''span.dropin-price.dropin-price--default.dropin-price--small.dropin-price--bold'' of
        Inl flt \<Rightarrow> (Inl flt, m1)
      | Inr price_element \<Rightarrow>
      case element_text w price_element of
        Inl flt \<Rightarrow> (Inl flt, m1)
      | Inr price_text \<Rightarrow>
          (Inr price_text, m1\<lparr>stdout := stdout m1 @ [''Current Price: '' @ price_text]\<rparr>))"

text \<open>\<open>get_product_price\<close>: the driver is made before the \<open>try\<close>; the \<open>finally\<close>
  block runs after the body however the body ended, and the result or the fault of the
  body goes on to the caller.\<close>

definition get_product_price :: "string set \<Rightarrow> world \<Rightarrow> machine \<Rightarrow> (fault + string) \<times> machine" where
  "get_product_price environ w m =
     (case setup_driver environ w m of
        (Inl flt, m1) \<Rightarrow> (Inl flt, m1)
      | (Inr driver, m1) \<Rightarrow>
          (case fetch w m1 of (res, m2) \<Rightarrow> (res, quit driver m2)))"

text \<open>\<open>lambda_handler\<close>: \<open>event\<close> and \<open>context\<close> are not looked at.\<close>

definition lambda_handler ::
  "string set \<Rightarrow> world \<Rightarrow> 'e \<Rightarrow> 'c \<Rightarrow> machine \<Rightarrow> (fault + reply) \<times> machine" where
  "lambda_handler environ w event context m =
     (case get_product_price environ w m of
        (Inl flt, m1) \<Rightarrow> (Inl flt, m1)
      | (Inr price, m1) \<Rightarrow>
          (Inr \<lparr>statusCode = 200, body = ''The current price is: '' @ price\<rparr>, m1))"

text \<open>Two worlds: a shop whose page shows the price, and one whose page has not
  rendered the price when the wait is over.\<close>

definition shop :: world where
  "shop = \<lparr>launch = (\<lambda>service opts. None), navigate = (\<lambda>url. None),
           find_element = (\<lambda>selector. Inr 7), element_text = (\<lambda>element. Inr ''12.99'')\<rparr>"

definition slow_shop :: world where
  "slow_shop = shop\<lparr>find_element :=
     (\<lambda>selector. Inl (Fault ''NoSuchElementException''))\<rparr>"

definition idle :: machine where
  "idle = \<lparr>sessions = [], started = 0, slept = 0, stdout = []\<rparr>"

section \<open>The store under \<open>shape\<close>\<close>

lemma shape_result:
  assumes "a < length h"
  shows "fst (shape t a h) = (case formatted t (h ! a) of Inl e \<Rightarrow> Inl e | Inr _ \<Rightarrow> Inr (length h + 2))"
  using assms
  by (simp add: shape_def formatted_def alloc_def Let_def nth_append split: sum.splits)

lemma shape_table:
  assumes "a < length h" and "formatted t (h ! a) = Inr out"
  shows "snd (shape t a h) ! (length h + 2) = out"
  using assms
  by (auto simp add: shape_def formatted_def alloc_def Let_def nth_append split: sum.splits)

lemma shape_keeps:
  assumes "b < length h"
  shows "snd (shape t a h) ! b = h ! b"
  using assms
  by (simp add: shape_def alloc_def Let_def nth_append split: sum.splits)

lemma shape_length:
  "length h \<le> length (snd (shape t a h))"
  by (simp add: shape_def alloc_def Let_def split: sum.splits)

section \<open>Labels and their occurrences\<close>

lemma occ_absent:
  "k \<notin> set (map fst cs) \<Longrightarrow> filter (\<lambda>c. fst c = k) cs = []"
  by (induction cs) auto

lemma occ_present:
  "k \<in> set (map fst cs) \<Longrightarrow> filter (\<lambda>c. fst c = k) cs \<noteq> []"
  by (induction cs) auto

lemma occ_distinct:
  "distinct (map fst cs) \<Longrightarrow> length (filter (\<lambda>c. fst c = k) cs) \<le> 1"
  by (induction cs) (auto simp: occ_absent)

lemma occ_rename:
  assumes "\<And>l. (ren l = k) = (l = k)"
  shows "length (filter (\<lambda>c. fst c = k) (map (\<lambda>c. (ren (fst c), snd c)) cs))
         = length (filter (\<lambda>c. fst c = k) cs)"
  by (induction cs) (auto simp: assms)

lemma labels_assign:
  "fst ` set (assign k v cs) = insert k (fst ` set cs)"
proof (cases "k \<in> set (map fst cs)")
  case True
  have "map fst (map (\<lambda>c. if fst c = k then (k, v) else c) cs) = map fst cs"
    by (induction cs) auto
  then have "fst ` set (map (\<lambda>c. if fst c = k then (k, v) else c) cs) = fst ` set cs"
    by (metis list.set_map)
  with True show ?thesis by (auto simp: assign_def)
next
  case False
  then show ?thesis by (simp add: assign_def)
qed

lemma occ_map_assign:
  "filter (\<lambda>c. fst c = k) (map (\<lambda>c. if fst c = k then (k, v) else c) cs)
   = map (\<lambda>c. (k, v)) (filter (\<lambda>c. fst c = k) cs)"
  by (induction cs) auto

lemma occ_assign_same:
  assumes "length (filter (\<lambda>c. fst c = k) cs) \<le> 1"
  shows "filter (\<lambda>c. fst c = k) (assign k v cs) = [(k, v)]"
proof (cases "k \<in> set (map fst cs)")
  case True
  then have "filter (\<lambda>c. fst c = k) cs \<noteq> []" by (rule occ_present)
  with assms obtain x where "filter (\<lambda>c. fst c = k) cs = [x]"
    by (cases "filter (\<lambda>c. fst c = k) cs") auto
  with True show ?thesis by (simp add: assign_def occ_map_assign)
next
  case False
  then show ?thesis by (simp add: assign_def occ_absent)
qed

lemma occ_assign_other:
  "k \<noteq> k' \<Longrightarrow> filter (\<lambda>c. fst c = k) (assign k' v cs) = filter (\<lambda>c. fst c = k) cs"
proof -
  assume "k \<noteq> k'"
  then have "filter (\<lambda>c. fst c = k) (map (\<lambda>c. if fst c = k' then (k', v) else c) cs)
             = filter (\<lambda>c. fst c = k) cs"
    by (induction cs) auto
  with \<open>k \<noteq> k'\<close> show ?thesis by (simp add: assign_def)
qed

lemma drop_assign:
  "filter (\<lambda>c. fst c \<noteq> k) (assign k v cs) = filter (\<lambda>c. fst c \<noteq> k) cs"
proof -
  have "filter (\<lambda>c. fst c \<noteq> k) (map (\<lambda>c. if fst c = k then (k, v) else c) cs)
        = filter (\<lambda>c. fst c \<noteq> k) cs"
    by (induction cs) auto
  then show ?thesis by (simp add: assign_def)
qed

lemma drop_absent:
  "k \<notin> set (map fst cs) \<Longrightarrow> filter (\<lambda>c. fst c \<noteq> k) cs = cs"
  by (induction cs) auto

lemma rename_timestamp:
  "(rename_label quantopian_names l = ''timestamp'') = (l = ''timestamp'')"
  by (simp add: rename_label_def quantopian_names_def)

lemma rename_symbol:
  "(rename_label quantopian_names l = ''symbol'') = (l = ''symbol'')"
  by (simp add: rename_label_def quantopian_names_def)

lemma rename_price:
  "(rename_label quantopian_names l = ''price'') = (l = ''price'')"
  by (simp add: rename_label_def quantopian_names_def)

lemma renamed_eq:
  "renamed f = map (\<lambda>c. (rename_label quantopian_names (fst c), snd c)) (columns f)"
  by (simp add: renamed_def rename_columns_def)

lemma renamed_mem:
  assumes "\<And>l. (rename_label quantopian_names l = k) = (l = k)"
  shows "(k \<in> fst ` set (renamed f)) = (k \<in> fst ` set (columns f))"
proof -
  have flip: "(k = rename_label quantopian_names l) = (k = l)" for l
    using assms [of l] by auto
  have "(k \<in> fst ` set (map (\<lambda>c. (rename_label quantopian_names (fst c), snd c)) cs))
        = (k \<in> fst ` set cs)" for cs
    by (induction cs) (simp_all add: flip)
  then show ?thesis by (simp add: renamed_eq)
qed

lemma renamed_occ:
  assumes "\<And>l. (rename_label quantopian_names l = k) = (l = k)"
    and "distinct (map fst (columns f))"
  shows "length (filter (\<lambda>c. fst c = k) (renamed f)) \<le> 1"
  using occ_rename [of "rename_label quantopian_names" k "columns f"] assms
    occ_distinct [of "columns f" k]
  by (simp add: renamed_eq)

lemma formatted_no_close:
  assumes "filter (\<lambda>c. fst c = ''close_price'') (renamed f) = []"
  shows "formatted t f = Inl (KeyError ''close_price'')"
  using assms by (simp add: formatted_def getitem_def renamed_def)

lemma formatted_two_close:
  assumes "distinct (map fst (columns f))"
    and "filter (\<lambda>c. fst c = ''close_price'') (renamed f) = c1 # c2 # cs"
  shows "formatted t f =
     Inl (ValueError (if ''price'' \<in> set (map fst (columns f))
                      then ''Columns must be same length as key''
                      else ''Cannot set a DataFrame with multiple columns to the single column price''))"
proof -
  let ?d = "rename_columns quantopian_names f"
  have g: "getitem ?d ''close_price'' = Inr (SubFrame (map snd (c1 # c2 # cs)))"
    using assms(2) by (simp add: getitem_def renamed_def)
  have one: "length (filter (\<lambda>c. fst c = ''price'') (columns ?d)) \<le> 1"
    using renamed_occ [OF rename_price assms(1)] by (simp add: renamed_def)
  have mem: "(''price'' \<in> set (labels ?d)) = (''price'' \<in> set (map fst (columns f)))"
    using renamed_mem [OF rename_price, of f] by (simp add: labels_def renamed_def)
  have "setitem ?d ''price'' (SubFrame (map snd (c1 # c2 # cs))) =
     Inl (ValueError (if ''price'' \<in> set (map fst (columns f))
                      then ''Columns must be same length as key''
                      else ''Cannot set a DataFrame with multiple columns to the single column price''))"
    using one mem by (simp add: setitem_def)
  with g show ?thesis by (simp add: formatted_def)
qed

lemma formatted_one_close:
  assumes lv: "levels f = [(n, idx)]"
    and d: "distinct (map fst (columns f))"
    and c: "filter (\<lambda>c. fst c = ''close_price'') (renamed f) = [c]"
  shows "formatted t f =
     (if ''timestamp'' \<in> set (map fst (columns f))
      then Inl (ValueError ''cannot insert timestamp, already exists'')
      else Inr \<lparr>levels = [(Some ''timestamp'', idx), (Some ''symbol'', replicate (length idx) (Str t))],
                columns = filter (\<lambda>c. fst c \<noteq> ''symbol'') (assign ''price'' (snd c) (renamed f))\<rparr>)"
proof -
  let ?d = "rename_columns quantopian_names f"
  let ?P = "assign ''price'' (snd c) (renamed f)"
  let ?priced = "?d\<lparr>columns := ?P\<rparr>"
  let ?named = "\<lparr>levels = [(Some ''timestamp'', idx)], columns = ?P\<rparr>"
  have g: "getitem ?d ''close_price'' = Inr (Series (snd c))"
    using c by (simp add: getitem_def renamed_def)
  have s: "setitem ?d ''price'' (Series (snd c)) = Inr ?priced"
    by (simp add: setitem_def renamed_def)
  have nm: "set_index_name ''timestamp'' ?priced = ?named"
    using lv by (simp add: set_index_name_def rename_columns_def)
  have tsP: "(''timestamp'' \<in> fst ` set ?P) = (''timestamp'' \<in> fst ` set (columns f))"
    using renamed_mem [OF rename_timestamp, of f] by (simp add: labels_assign)
  show ?thesis
  proof (cases "''timestamp'' \<in> set (map fst (columns f))")
    case True
    then have "reset_index ?named = Inl (ValueError ''cannot insert timestamp, already exists'')"
      using tsP by (simp add: reset_index_def level_labels_def insert_front_def)
    with g s nm True show ?thesis by (simp add: formatted_def)
  next
    case False
    let ?flat = "\<lparr>levels = [(None, map (\<lambda>i. Num (int i)) [0..<length idx])],
                  columns = (''timestamp'', idx) # ?P\<rparr>"
    let ?stamped = "\<lparr>levels = [(Some ''timestamp'', idx)], columns = ?P\<rparr>"
    let ?sym = "replicate (length idx) (Str t)"
    from False tsP have noP: "''timestamp'' \<notin> set (map fst ?P)" by simp
    have r: "reset_index ?named = Inr ?flat"
      using noP by (simp add: reset_index_def level_labels_def insert_front_def nrows_def)
    have si: "set_index ''timestamp'' False ?flat = Inr ?stamped"
      using noP by (simp add: set_index_def occ_absent drop_absent)
    have sc: "setitem_scalar ?stamped ''symbol'' (Str t)
              = \<lparr>levels = [(Some ''timestamp'', idx)], columns = assign ''symbol'' ?sym ?P\<rparr>"
      by (simp add: setitem_scalar_def nrows_def)
    have "length (filter (\<lambda>c. fst c = ''symbol'') (renamed f)) \<le> 1"
      by (rule renamed_occ [OF rename_symbol d])
    then have "length (filter (\<lambda>c. fst c = ''symbol'') ?P) \<le> 1"
      by (simp add: occ_assign_other)
    then have occ: "filter (\<lambda>c. fst c = ''symbol'') (assign ''symbol'' ?sym ?P) = [(''symbol'', ?sym)]"
      by (rule occ_assign_same)
    have fin: "set_index ''symbol'' True \<lparr>levels = [(Some ''timestamp'', idx)], columns = assign ''symbol'' ?sym ?P\<rparr>
               = Inr \<lparr>levels = [(Some ''timestamp'', idx), (Some ''symbol'', ?sym)],
                      columns = filter (\<lambda>c. fst c \<noteq> ''symbol'') ?P\<rparr>"
      using occ by (simp add: set_index_def drop_assign)
    from g s nm r si sc fin False show ?thesis by (simp add: formatted_def)
  qed
qed

lemma response_levels: "\<exists>n idx. levels (Rep_response r) = [(n, idx)]"
proof -
  have "length (levels (Rep_response r)) = 1" using Rep_response [of r] by simp
  then show ?thesis by (cases "levels (Rep_response r)") auto
qed

lemma response_distinct: "distinct (map fst (columns (Rep_response r)))"
  using Rep_response [of r] by simp

lemma response_rows: "c \<in> set (columns (Rep_response r)) \<Longrightarrow> length (snd c) = nrows (Rep_response r)"
  using Rep_response [of r] by simp

lemma outcome_shape:
  assumes "a < length h"
  shows "outcome (shape t a h) = formatted t (h ! a)"
proof (cases "formatted t (h ! a)")
  case (Inl e)
  with shape_result [OF assms, of t] show ?thesis by (simp add: outcome_def)
next
  case (Inr out)
  with shape_result [OF assms, of t] shape_table [OF assms Inr] show ?thesis
    by (simp add: outcome_def)
qed

lemma get_pricing_raised:
  assumes "dl t s e (provider_interval f) = Raised m"
  shows "get_pricing dl t s e f h =
         (Inl (ValueError (''Error fetching data for '' @ t @ '': '' @ m)), h)"
  using assms by (simp add: get_pricing_def)

lemma get_pricing_empty:
  assumes "dl t s e (provider_interval f) = Returned r" and "frame_empty (Rep_response r)"
  shows "get_pricing dl t s e f h =
         (Inl (ValueError (''No data found for '' @ t @ '' from '' @ s @ '' to '' @ e @ ''.'')),
          h @ [Rep_response r])"
  using assms by (simp add: get_pricing_def alloc_def)

lemma get_pricing_shape:
  assumes "dl t s e (provider_interval f) = Returned r" and "\<not> frame_empty (Rep_response r)"
  shows "get_pricing dl t s e f h = shape t (length h) (h @ [Rep_response r])"
  using assms by (simp add: get_pricing_def alloc_def)

lemma get_pricing_formatted:
  assumes "dl t s e (provider_interval f) = Returned r" and "\<not> frame_empty (Rep_response r)"
  shows "outcome (get_pricing dl t s e f h) = formatted t (Rep_response r)"
  using assms get_pricing_shape [of dl t s e f r h]
    outcome_shape [of "length h" "h @ [Rep_response r]" t]
  by simp

text \<open>Inversion: a normal return comes from a non-empty response.\<close>

lemma get_pricing_returns:
  assumes "outcome (get_pricing dl t s e f h) = Inr out"
  obtains r where "dl t s e (provider_interval f) = Returned r"
    and "\<not> frame_empty (Rep_response r)" and "formatted t (Rep_response r) = Inr out"
proof (cases "dl t s e (provider_interval f)")
  case (Raised m)
  with assms get_pricing_raised [of dl t s e f m h] show ?thesis by (simp add: outcome_def)
next
  case (Returned r)
  show ?thesis
  proof (cases "frame_empty (Rep_response r)")
    case True
    with assms Returned get_pricing_empty [of dl t s e f r h] show ?thesis
      by (simp add: outcome_def)
  next
    case False
    with assms Returned get_pricing_formatted [of dl t s e f r h] that [of r]
    show ?thesis by simp
  qed
qed

lemma formatted_returns:
  assumes "formatted t (Rep_response r) = Inr out"
  obtains n idx c where "levels (Rep_response r) = [(n, idx)]"
    and "filter (\<lambda>c. fst c = ''close_price'') (renamed (Rep_response r)) = [c]"
    and "''timestamp'' \<notin> set (map fst (columns (Rep_response r)))"
    and "out = \<lparr>levels = [(Some ''timestamp'', idx), (Some ''symbol'', replicate (length idx) (Str t))],
                columns = filter (\<lambda>c. fst c \<noteq> ''symbol'')
                            (assign ''price'' (snd c) (renamed (Rep_response r)))\<rparr>"
proof -
  let ?f = "Rep_response r"
  obtain n idx where lv: "levels ?f = [(n, idx)]" using response_levels by blast
  show ?thesis
  proof (cases "filter (\<lambda>c. fst c = ''close_price'') (renamed ?f)")
    case Nil
    with assms formatted_no_close [OF Nil, of t] show ?thesis by simp
  next
    case (Cons c1 cs)
    show ?thesis
    proof (cases cs)
      case Nil
      with Cons have one: "filter (\<lambda>c. fst c = ''close_price'') (renamed ?f) = [c1]" by simp
      from assms formatted_one_close [OF lv response_distinct one, of t]
      have "''timestamp'' \<notin> set (map fst (columns ?f))"
        and "out = \<lparr>levels = [(Some ''timestamp'', idx), (Some ''symbol'', replicate (length idx) (Str t))],
                columns = filter (\<lambda>c. fst c \<noteq> ''symbol'') (assign ''price'' (snd c1) (renamed ?f))\<rparr>"
        by (auto split: if_splits)
      with lv one show ?thesis by (rule that)
    next
      case (Cons c2 cs')
      with \<open>filter (\<lambda>c. fst c = ''close_price'') (renamed ?f) = c1 # cs\<close>
      have "filter (\<lambda>c. fst c = ''close_price'') (renamed ?f) = c1 # c2 # cs'" by simp
      from assms formatted_two_close [OF response_distinct this, of t] show ?thesis by simp
    qed
  qed
qed

lemma Rep_yahoo: "Rep_response yahoo = yahoo_frame"
  unfolding yahoo_def
  by (rule Abs_response_inverse) (simp add: yahoo_frame_def nrows_def)

lemma shape_yahoo: "outcome (shape ''AAPL'' 0 [yahoo_frame]) = Inr aapl_table"
  by (simp add: outcome_def shape_def alloc_def yahoo_frame_def aapl_table_def
      rename_columns_def rename_label_def quantopian_names_def getitem_def setitem_def
      assign_def set_index_name_def reset_index_def level_labels_def insert_front_def
      nrows_def set_index_def setitem_scalar_def)

lemma yahoo_run:
  "outcome (get_pricing (always yahoo) ''AAPL'' ''2023-01-03'' ''2023-01-10'' f []) = Inr aapl_table"
proof -
  have "\<not> frame_empty yahoo_frame" by (simp add: frame_empty_def yahoo_frame_def nrows_def)
  then have "get_pricing (always yahoo) ''AAPL'' ''2023-01-03'' ''2023-01-10'' f []
             = shape ''AAPL'' 0 [yahoo_frame]"
    by (simp add: get_pricing_def always_def alloc_def Rep_yahoo)
  with shape_yahoo show ?thesis by simp
qed

lemma occ_drop:
  "k \<noteq> k' \<Longrightarrow> filter (\<lambda>c. fst c \<noteq> k' \<and> fst c = k) cs = filter (\<lambda>c. fst c = k) cs"
  by (induction cs) auto

lemma renamed_rows:
  "c \<in> set (renamed (Rep_response r)) \<Longrightarrow> length (snd c) = nrows (Rep_response r)"
  using response_rows [of _ r] by (auto simp: renamed_eq)

lemma assign_rows:
  assumes "\<forall>c \<in> set cs. length (snd c) = n" and "length v = n"
  shows "\<forall>c \<in> set (assign k v cs). length (snd c) = n"
  using assms by (auto simp: assign_def)




section \<open>The pricing adapter: properties\<close>

text \<open>Claim C1. Whenever \<open>get_pricing\<close> returns a table, reading its column \<open>price\<close> and
  reading its column \<open>close_price\<close> give the same Series: each label stands for exactly
  one column, and the two columns are equal cell by cell.\<close>

theorem price_equals_close:
  assumes "outcome (get_pricing download ticker start_date end_date frequency h) = Inr out"
  shows "\<exists>v. getitem out ''price'' = Inr (Series v) \<and> getitem out ''close_price'' = Inr (Series v)"
proof -
  from assms obtain r where
    dl: "download ticker start_date end_date (provider_interval frequency) = Returned r" and
    ne: "\<not> frame_empty (Rep_response r)" and
    fm: "formatted ticker (Rep_response r) = Inr out"
    by (rule get_pricing_returns)
  let ?R = "renamed (Rep_response r)"
  from fm obtain n idx c where
    lv: "levels (Rep_response r) = [(n, idx)]" and
    c: "filter (\<lambda>c. fst c = ''close_price'') ?R = [c]" and
    ts: "''timestamp'' \<notin> set (map fst (columns (Rep_response r)))" and
    out: "out = \<lparr>levels = [(Some ''timestamp'', idx), (Some ''symbol'', replicate (length idx) (Str ticker))],
                 columns = filter (\<lambda>c. fst c \<noteq> ''symbol'') (assign ''price'' (snd c) ?R)\<rparr>"
    by (rule formatted_returns)
  have "length (filter (\<lambda>c. fst c = ''price'') ?R) \<le> 1"
    by (rule renamed_occ [OF rename_price response_distinct])
  then have p: "filter (\<lambda>c. fst c = ''price'') (columns out) = [(''price'', snd c)]"
    by (simp add: out occ_drop occ_assign_same)
  have q: "filter (\<lambda>c. fst c = ''close_price'') (columns out) = [c]"
    by (simp add: out occ_drop occ_assign_other c)
  from p q show ?thesis by (simp add: getitem_def)
qed

theorem price_equals_close_witness:
  "outcome (get_pricing (always yahoo) ''AAPL'' ''2023-01-03'' ''2023-01-10'' ''1d'' []) = Inr aapl_table \<and>
   getitem aapl_table ''price'' = Inr (Series [Num 12507, Num 12636]) \<and>
   getitem aapl_table ''close_price'' = Inr (Series [Num 12507, Num 12636])"
  using yahoo_run [of "''1d''"]
    price_equals_close [of "always yahoo" "''AAPL''" "''2023-01-03''" "''2023-01-10''" "''1d''" "[]" aapl_table]
  by (simp add: getitem_def aapl_table_def)




text \<open>Claim C3 does not hold of the code. On the table that the provider returned by default
  when the script was written (Open, High, Low, Close, Adj Close, Volume), the result has
  seven columns: the provider's \<open>Adj Close\<close> is still there, between \<open>close_price\<close> and
  \<open>volume\<close>. The columns are renamed, none is selected or dropped.\<close>

theorem native_column_kept:
  "outcome (get_pricing (always yahoo) ''AAPL'' ''2023-01-03'' ''2023-01-10'' ''1d'' []) = Inr aapl_table \<and>
   labels aapl_table =
     [''open_price'', ''high'', ''low'', ''close_price'', ''Adj Close'', ''volume'', ''price'']"
  using yahoo_run [of "''1d''"] by (simp add: labels_def aapl_table_def)

text \<open>Claim C4. Whenever \<open>get_pricing\<close> returns a table, its row index has exactly two
  levels, named \<open>timestamp\<close> and \<open>symbol\<close> in this order, and the label of every row at
  the level \<open>symbol\<close> is the ticker that was passed in.\<close>

theorem index_levels:
  assumes "outcome (get_pricing download ticker start_date end_date frequency h) = Inr out"
  shows "length (levels out) = 2 \<and>
         map fst (levels out) = [Some ''timestamp'', Some ''symbol''] \<and>
         snd (levels out ! 1) = replicate (nrows out) (Str ticker)"
proof -
  from assms obtain r where
    dl: "download ticker start_date end_date (provider_interval frequency) = Returned r" and
    ne: "\<not> frame_empty (Rep_response r)" and
    fm: "formatted ticker (Rep_response r) = Inr out"
    by (rule get_pricing_returns)
  from fm obtain n idx c where
    lv: "levels (Rep_response r) = [(n, idx)]" and
    c: "filter (\<lambda>c. fst c = ''close_price'') (renamed (Rep_response r)) = [c]" and
    ts: "''timestamp'' \<notin> set (map fst (columns (Rep_response r)))" and
    out: "out = \<lparr>levels = [(Some ''timestamp'', idx), (Some ''symbol'', replicate (length idx) (Str ticker))],
                 columns = filter (\<lambda>c. fst c \<noteq> ''symbol'')
                   (assign ''price'' (snd c) (renamed (Rep_response r)))\<rparr>"
    by (rule formatted_returns)
  from out show ?thesis by (simp add: nrows_def)
qed

theorem index_levels_witness:
  "outcome (get_pricing (always yahoo) ''AAPL'' ''2023-01-03'' ''2023-01-10'' ''1d'' []) = Inr aapl_table \<and>
   map fst (levels aapl_table) = [Some ''timestamp'', Some ''symbol''] \<and>
   snd (levels aapl_table ! 1) = [Str ''AAPL'', Str ''AAPL'']"
  using yahoo_run [of "''1d''"]
    index_levels [of "always yahoo" "''AAPL''" "''2023-01-03''" "''2023-01-10''" "''1d''" "[]" aapl_table]
  by (simp add: aapl_table_def)

text \<open>Claim C7. The interval handed to the provider for \<open>1m\<close> is \<open>1m\<close>, and for every
  frequency it is the frequency itself. \<open>get_pricing\<close> has no check of the frequency:
  what it does is decided by the provider's answer to that interval alone.\<close>

theorem frequency_passed_on:
  "provider_interval ''1m'' = ''1m'' \<and> provider_interval frequency = frequency \<and>
   get_pricing download ticker start_date end_date frequency h =
     (case download ticker start_date end_date frequency of
        Raised m \<Rightarrow> (Inl (ValueError (''Error fetching data for '' @ ticker @ '': '' @ m)), h)
      | Returned r \<Rightarrow>
          if frame_empty (Rep_response r)
          then (Inl (ValueError (''No data found for '' @ ticker @ '' from '' @ start_date
                                 @ '' to '' @ end_date @ ''.'')), h @ [Rep_response r])
          else shape ticker (length h) (h @ [Rep_response r]))"
  by (simp add: provider_interval_def get_pricing_def alloc_def split: download_result.splits)

theorem frequency_passed_on_witness:
  "provider_interval ''1wk'' = ''1wk'' \<and>
   always yahoo ''AAPL'' ''2023-01-03'' ''2023-01-10'' ''1wk'' = Returned yahoo \<and>
   get_pricing (always yahoo) ''AAPL'' ''2023-01-03'' ''2023-01-10'' ''1wk'' []
     = shape ''AAPL'' 0 [yahoo_frame]"
proof -
  have "\<not> frame_empty yahoo_frame" by (simp add: frame_empty_def yahoo_frame_def nrows_def)
  with frequency_passed_on [of "''1wk''" "always yahoo" "''AAPL''" "''2023-01-03''" "''2023-01-10''" "[]"]
  show ?thesis by (simp add: always_def Rep_yahoo)
qed

text \<open>Claim C8. Whenever \<open>get_pricing\<close> returns a table, the table has as many rows as the
  table the provider returned, and so has each of its columns.\<close>

theorem rows_preserved:
  assumes "download ticker start_date end_date (provider_interval frequency) = Returned r"
    and "outcome (get_pricing download ticker start_date end_date frequency h) = Inr out"
  shows "nrows out = nrows (Rep_response r) \<and>
         (\<forall>c \<in> set (columns out). length (snd c) = nrows (Rep_response r))"
proof -
  from assms(2) obtain r' where "download ticker start_date end_date (provider_interval frequency) = Returned r'"
    and "\<not> frame_empty (Rep_response r')"
    and "formatted ticker (Rep_response r') = Inr out"
    by (rule get_pricing_returns)
  with assms(1) have fm: "formatted ticker (Rep_response r) = Inr out" by simp
  let ?R = "renamed (Rep_response r)"
  from fm obtain n idx c where
    lv: "levels (Rep_response r) = [(n, idx)]" and
    c: "filter (\<lambda>c. fst c = ''close_price'') ?R = [c]" and
    ts: "''timestamp'' \<notin> set (map fst (columns (Rep_response r)))" and
    out: "out = \<lparr>levels = [(Some ''timestamp'', idx), (Some ''symbol'', replicate (length idx) (Str ticker))],
                 columns = filter (\<lambda>c. fst c \<noteq> ''symbol'') (assign ''price'' (snd c) ?R)\<rparr>"
    by (rule formatted_returns)
  have rows: "nrows out = nrows (Rep_response r)" by (simp add: out lv nrows_def)
  have "c \<in> set (filter (\<lambda>c. fst c = ''close_price'') ?R)" by (simp add: c)
  then have "c \<in> set ?R" by simp
  then have v: "length (snd c) = nrows (Rep_response r)" by (rule renamed_rows)
  have "\<forall>x \<in> set ?R. length (snd x) = nrows (Rep_response r)"
    using renamed_rows by blast
  then have "\<forall>x \<in> set (assign ''price'' (snd c) ?R). length (snd x) = nrows (Rep_response r)"
    using v by (rule assign_rows)
  then have "\<forall>x \<in> set (columns out). length (snd x) = nrows (Rep_response r)"
    by (simp add: out)
  with rows show ?thesis by blast
qed

theorem rows_preserved_witness:
  "always yahoo ''AAPL'' ''2023-01-03'' ''2023-01-10'' (provider_interval ''1d'') = Returned yahoo \<and>
   outcome (get_pricing (always yahoo) ''AAPL'' ''2023-01-03'' ''2023-01-10'' ''1d'' []) = Inr aapl_table \<and>
   nrows (Rep_response yahoo) = 2 \<and> nrows aapl_table = 2 \<and>
   map (\<lambda>c. length (snd c)) (columns aapl_table) = [2, 2, 2, 2, 2, 2, 2]"
proof -
  have a: "always yahoo ''AAPL'' ''2023-01-03'' ''2023-01-10'' (provider_interval ''1d'') = Returned yahoo"
    by (simp add: always_def)
  from a yahoo_run [of "''1d''"]
    rows_preserved [of "always yahoo" "''AAPL''" "''2023-01-03''" "''2023-01-10''" "''1d''" yahoo "[]" aapl_table]
  show ?thesis by (simp add: Rep_yahoo yahoo_frame_def aapl_table_def nrows_def)
qed

text \<open>Claim C9. The outcome of the shaping is decided by the table it is given and by the
  ticker: it is the same for a table with the same content at any place of any store, and
  the same when the shaping runs a second time on the same object after the first run. The
  object it is given is the same after each run as before.\<close>

theorem shape_pure:
  assumes "data < length h" and "data' < length h'" and "h' ! data' = h ! data"
  shows "outcome (shape ticker data' h') = outcome (shape ticker data h) \<and>
         outcome (shape ticker data (snd (shape ticker data h))) = outcome (shape ticker data h) \<and>
         snd (shape ticker data h) ! data = h ! data \<and>
         snd (shape ticker data (snd (shape ticker data h))) ! data = h ! data"
proof -
  let ?h1 = "snd (shape ticker data h)"
  have len: "data < length ?h1" using assms(1) shape_length [of h ticker data] by simp
  have keep: "?h1 ! data = h ! data" using assms(1) by (rule shape_keeps)
  have keep2: "snd (shape ticker data ?h1) ! data = ?h1 ! data" using len by (rule shape_keeps)
  show ?thesis
    using assms keep keep2 len by (simp add: outcome_shape)
qed

theorem shape_pure_witness:
  "(0::nat) < length [yahoo_frame] \<and> (1::nat) < length [aapl_table, yahoo_frame] \<and>
   [aapl_table, yahoo_frame] ! 1 = [yahoo_frame] ! 0 \<and>
   outcome (shape ''AAPL'' 0 [yahoo_frame]) = Inr aapl_table \<and>
   outcome (shape ''AAPL'' 1 [aapl_table, yahoo_frame]) = Inr aapl_table \<and>
   outcome (shape ''AAPL'' 0 (snd (shape ''AAPL'' 0 [yahoo_frame]))) = Inr aapl_table \<and>
   snd (shape ''AAPL'' 0 [yahoo_frame]) ! 0 = yahoo_frame"
  using shape_yahoo shape_pure [of 0 "[yahoo_frame]" 1 "[aapl_table, yahoo_frame]" "''AAPL''"]
  by simp

text \<open>Claim C10. Whenever \<open>get_pricing\<close> returns a table, the table has at least one row (and,
  with its column \<open>price\<close>, is not empty in the sense of \<open>DataFrame.empty\<close>).\<close>

theorem result_not_empty:
  assumes "outcome (get_pricing download ticker start_date end_date frequency h) = Inr out"
  shows "0 < nrows out \<and> \<not> frame_empty out"
proof -
  from assms obtain r where
    dl: "download ticker start_date end_date (provider_interval frequency) = Returned r" and
    ne: "\<not> frame_empty (Rep_response r)" and
    fm: "formatted ticker (Rep_response r) = Inr out"
    by (rule get_pricing_returns)
  let ?R = "renamed (Rep_response r)"
  from fm obtain n idx c where
    lv: "levels (Rep_response r) = [(n, idx)]" and
    c: "filter (\<lambda>c. fst c = ''close_price'') ?R = [c]" and
    ts: "''timestamp'' \<notin> set (map fst (columns (Rep_response r)))" and
    out: "out = \<lparr>levels = [(Some ''timestamp'', idx), (Some ''symbol'', replicate (length idx) (Str ticker))],
                 columns = filter (\<lambda>c. fst c \<noteq> ''symbol'') (assign ''price'' (snd c) ?R)\<rparr>"
    by (rule formatted_returns)
  from ne lv have rows: "0 < nrows out" by (simp add: out frame_empty_def nrows_def)
  have "length (filter (\<lambda>c. fst c = ''price'') ?R) \<le> 1"
    by (rule renamed_occ [OF rename_price response_distinct])
  then have "filter (\<lambda>c. fst c = ''price'') (columns out) = [(''price'', snd c)]"
    by (simp add: out occ_drop occ_assign_same)
  then have "columns out \<noteq> []" by auto
  with rows show ?thesis by (simp add: frame_empty_def)
qed

theorem result_not_empty_witness:
  "outcome (get_pricing (always yahoo) ''AAPL'' ''2023-01-03'' ''2023-01-10'' ''1d'' []) = Inr aapl_table \<and>
   0 < nrows aapl_table \<and> \<not> frame_empty aapl_table"
  using yahoo_run [of "''1d''"]
    result_not_empty [of "always yahoo" "''AAPL''" "''2023-01-03''" "''2023-01-10''" "''1d''" "[]" aapl_table]
  by simp

section \<open>The price watcher: properties\<close>

lemma fetch_sessions: "sessions (snd (fetch w m)) = sessions m"
  by (simp add: fetch_def Let_def split: option.splits sum.splits)

text \<open>Claim C5. Once \<open>setup_driver\<close> has made the driver, its session is open while the body
  runs and is no longer open when \<open>get_product_price\<close> ends, whichever way it ends: by
  returning the text, by a fault of the navigation, of the search for the element or of
  the reading of its text. No session is open afterwards that was not open before.\<close>

theorem session_released:
  assumes "fst (setup_driver environ w m) = Inr driver"
  shows "driver \<in> set (sessions (snd (setup_driver environ w m))) \<and>
         driver \<notin> set (sessions (snd (get_product_price environ w m))) \<and>
         set (sessions (snd (get_product_price environ w m))) \<subseteq> set (sessions m)"
proof -
  obtain m1 where s: "setup_driver environ w m = (Inr driver, m1)"
    using assms by (cases "setup_driver environ w m") simp
  then have m1: "sessions m1 = driver # sessions m"
    by (auto simp: setup_driver_def Let_def split: if_splits option.splits)
  obtain res m2 where f: "fetch w m1 = (res, m2)" by (cases "fetch w m1")
  then have "sessions m2 = sessions m1" using fetch_sessions [of w m1] by simp
  with s f m1 show ?thesis by (auto simp: get_product_price_def quit_def)
qed

theorem session_released_witness:
  "fst (setup_driver {} slow_shop idle) = Inr 0 \<and>
   fst (get_product_price {} slow_shop idle) = Inl (Fault ''NoSuchElementException'') \<and>
   0 \<in> set (sessions (snd (setup_driver {} slow_shop idle))) \<and>
   0 \<notin> set (sessions (snd (get_product_price {} slow_shop idle)))"
proof -
  have h: "fst (setup_driver {} slow_shop idle) = Inr 0"
    by (simp add: setup_driver_def slow_shop_def shop_def idle_def)
  have "fst (get_product_price {} slow_shop idle) = Inl (Fault ''NoSuchElementException'')"
    by (simp add: get_product_price_def setup_driver_def fetch_def slow_shop_def shop_def idle_def)
  with h session_released [OF h] show ?thesis by simp
qed

text \<open>Claim C6. When the fetch returns the text \<open>t\<close>, \<open>lambda_handler\<close> returns the reply with
  status code 200 and body \<open>The current price is: t\<close>; when the fetch ends by a fault,
  the same fault leaves \<open>lambda_handler\<close>; a reply, when there is one, has status code
  200. The handler does nothing else to the machine.\<close>

theorem handler_reply:
  "(fst (get_product_price environ w m) = Inr t \<longrightarrow>
      fst (lambda_handler environ w event context m)
        = Inr \<lparr>statusCode = 200, body = ''The current price is: '' @ t\<rparr>) \<and>
   (fst (get_product_price environ w m) = Inl flt \<longrightarrow>
      fst (lambda_handler environ w event context m) = Inl flt) \<and>
   (fst (lambda_handler environ w event context m) = Inr r \<longrightarrow> statusCode r = 200) \<and>
   snd (lambda_handler environ w event context m) = snd (get_product_price environ w m)"
  by (cases "get_product_price environ w m")
     (auto simp: lambda_handler_def split: sum.splits)

theorem handler_reply_witness:
  "fst (get_product_price {} shop idle) = Inr ''12.99'' \<and>
   fst (lambda_handler {} shop () () idle)
     = Inr \<lparr>statusCode = 200, body = ''The current price is: 12.99''\<rparr> \<and>
   fst (get_product_price {} slow_shop idle) = Inl (Fault ''NoSuchElementException'') \<and>
   fst (lambda_handler {} slow_shop () () idle) = Inl (Fault ''NoSuchElementException'')"
proof -
  have a: "fst (get_product_price {} shop idle) = Inr ''12.99''"
    by (simp add: get_product_price_def setup_driver_def fetch_def shop_def idle_def)
  have b: "fst (get_product_price {} slow_shop idle) = Inl (Fault ''NoSuchElementException'')"
    by (simp add: get_product_price_def setup_driver_def fetch_def slow_shop_def shop_def idle_def)
  from a b
    handler_reply [of "{}" shop idle "''12.99''" "()" "()" "Fault ''NoSuchElementException''"]
    handler_reply [of "{}" slow_shop idle "''12.99''" "()" "()" "Fault ''NoSuchElementException''"]
  show ?thesis by simp
qed

end
